theory Spec2Isabelle
  imports Complex_Main "HOL-Library.Multiset"
begin

section \<open>Values of the JavaScript runtime\<close>

text \<open>
  A JavaScript \<open>number\<close> is modelled as an exact real, extended by \<open>NaN\<close>: the value an
  arithmetic expression takes when it reads past the end of an array (\<open>undefined\<close>
  coerces to \<open>NaN\<close>). Vectors handed to the program hold finite reals. Rounding, overflow
  to infinity and underflow are outside this model of the sums of products; they are
  modelled for \<open>cosineSimilarity\<close>, whose arithmetic is that of IEEE 754 doubles (below).
\<close>

datatype jsnum = NaN | Val real

fun js_add :: "jsnum \<Rightarrow> jsnum \<Rightarrow> jsnum" where
  "js_add (Val a) (Val b) = Val (a + b)"
| "js_add _ _ = NaN"


fun js_mul :: "jsnum \<Rightarrow> jsnum \<Rightarrow> jsnum" where
  "js_mul (Val a) (Val b) = Val (a * b)"
| "js_mul _ _ = NaN"


text \<open>\<open>x >= y\<close>: every comparison with \<open>NaN\<close> is false.\<close>

fun js_ge :: "jsnum \<Rightarrow> jsnum \<Rightarrow> bool" where
  "js_ge (Val a) (Val b) = (b \<le> a)"
| "js_ge _ _ = False"

text \<open>\<open>b[i]\<close> in an arithmetic context: \<open>undefined\<close> past the end, hence \<open>NaN\<close>.\<close>

definition js_index :: "real list \<Rightarrow> nat \<Rightarrow> jsnum" where
  "js_index b i = (if i < length b then Val (b ! i) else NaN)"

subsection \<open>Double arithmetic\<close>

text \<open>
  An IEEE 754 binary64 value: not a number, an infinity, or a finite real (taken to be
  representable; the two zeros are identified, and \<open>x === 0\<close> holds of both).
\<close>

datatype double = NaN64 | PosInf | NegInf | Finite real

text \<open>The nearest integer, a tie going to the even one.\<close>

definition round_even :: "real \<Rightarrow> int" where
  "round_even n =
     (let f = \<lfloor>n\<rfloor>; d = n - of_int f in
      if d < 1/2 then f else if 1/2 < d then f + 1 else if even f then f else f + 1)"

text \<open>
  The spacing of the doubles around \<open>x\<close>: 52 binary digits below the leading one, and
  \<open>2\<^sup>-\<^sup>1\<^sup>0\<^sup>7\<^sup>4\<close> in the subnormal range.
\<close>

definition quantum :: "real \<Rightarrow> real" where
  "quantum x = 2 powr (of_int (max \<lfloor>log 2 \<bar>x\<bar>\<rfloor> (- 1022)) - 52)"

text \<open>
  Rounding of an exact result to the nearest double, ties to even; a result that rounds
  to \<open>2\<^sup>1\<^sup>0\<^sup>2\<^sup>4\<close> or beyond overflows to an infinity.
\<close>

definition fl :: "real \<Rightarrow> double" where
  "fl x =
     (if x = 0 then Finite 0
      else
        (let y = quantum x * of_int (round_even (x / quantum x)) in
         if 2 ^ 1024 \<le> \<bar>y\<bar> then (if 0 < y then PosInf else NegInf) else Finite y))"

fun d_add :: "double \<Rightarrow> double \<Rightarrow> double" where
  "d_add (Finite a) (Finite b) = fl (a + b)"
| "d_add NaN64 _ = NaN64"
| "d_add _ NaN64 = NaN64"
| "d_add PosInf NegInf = NaN64"
| "d_add NegInf PosInf = NaN64"
| "d_add PosInf _ = PosInf"
| "d_add _ PosInf = PosInf"
| "d_add NegInf _ = NegInf"
| "d_add _ NegInf = NegInf"

fun d_mul :: "double \<Rightarrow> double \<Rightarrow> double" where
  "d_mul (Finite a) (Finite b) = fl (a * b)"
| "d_mul NaN64 _ = NaN64"
| "d_mul _ NaN64 = NaN64"
| "d_mul PosInf (Finite b) = (if b = 0 then NaN64 else if 0 < b then PosInf else NegInf)"
| "d_mul NegInf (Finite b) = (if b = 0 then NaN64 else if 0 < b then NegInf else PosInf)"
| "d_mul (Finite a) PosInf = (if a = 0 then NaN64 else if 0 < a then PosInf else NegInf)"
| "d_mul (Finite a) NegInf = (if a = 0 then NaN64 else if 0 < a then NegInf else PosInf)"
| "d_mul PosInf PosInf = PosInf"
| "d_mul NegInf NegInf = PosInf"
| "d_mul PosInf NegInf = NegInf"
| "d_mul NegInf PosInf = NegInf"

text \<open>
  A zero divisor is taken as the positive zero: the only divisor of the program is a
  product of square roots.
\<close>

fun d_div :: "double \<Rightarrow> double \<Rightarrow> double" where
  "d_div (Finite a) (Finite b) =
     (if b = 0 then (if a = 0 then NaN64 else if 0 < a then PosInf else NegInf) else fl (a / b))"
| "d_div NaN64 _ = NaN64"
| "d_div _ NaN64 = NaN64"
| "d_div (Finite a) _ = Finite 0"
| "d_div PosInf (Finite b) = (if 0 \<le> b then PosInf else NegInf)"
| "d_div NegInf (Finite b) = (if 0 \<le> b then NegInf else PosInf)"
| "d_div _ _ = NaN64"

text \<open>\<open>Math.sqrt\<close>, correctly rounded.\<close>

fun d_sqrt :: "double \<Rightarrow> double" where
  "d_sqrt (Finite a) = (if a < 0 then NaN64 else fl (sqrt a))"
| "d_sqrt PosInf = PosInf"
| "d_sqrt _ = NaN64"

definition d_index :: "real list \<Rightarrow> nat \<Rightarrow> double" where
  "d_index b i = (if i < length b then Finite (b ! i) else NaN64)"

subsection \<open>Errors and records\<close>

text \<open>
  Thrown values. \<open>SystemError code message\<close> is a \<open>NodeJS.ErrnoException\<close> of the
  filesystem; \<open>Error message\<close> is \<open>new Error(message)\<close>; \<open>TypeError\<close> is raised by the
  runtime on a property read of \<open>undefined\<close>.
\<close>

datatype error = SystemError string string | Error string | TypeError string

fun code :: "error \<Rightarrow> string option" where
  "code (SystemError c m) = Some c"
| "code _ = None"

record Stats =
  isFile :: bool

record RawImage =
  width :: nat
  height :: nat
  channels :: nat
  pixels :: "nat list"

section \<open>The model runtime\<close>

text \<open>
  A tensor of the inference library: its shape and its flat data. The processor turns
  texts or images into model inputs; the model maps inputs to named output tensors, each
  of which may be absent.
\<close>

record Tensor =
  dims :: "nat list"
  data :: "real list"

datatype ModelInputs = ModelInputs "nat list list" "real list list"

record ModelOutput =
  l2norm_image_embeddings :: "Tensor option"
  image_embeds :: "Tensor option"
  image_embeddings :: "Tensor option"
  l2norm_text_embeddings :: "Tensor option"
  text_embeds :: "Tensor option"
  text_embeddings :: "Tensor option"

type_synonym Processor = "string list option \<Rightarrow> RawImage list option \<Rightarrow> error + ModelInputs"

type_synonym PreTrainedModel = "ModelInputs \<Rightarrow> error + ModelOutput"

text \<open>
  The ONNX runtime: an input tensor, an output value whose \<open>data\<close> may be missing, and a
  session with its output names and its \<open>run\<close>, which returns the outputs by name.
\<close>

record OrtTensor =
  ort_type :: string
  ort_data :: "jsnum list"
  ort_dims :: "nat list"

record OrtValue =
  value_data :: "real list option"

record InferenceSession =
  outputNames :: "string list"
  run :: "OrtTensor \<Rightarrow> error + (string \<Rightarrow> OrtValue option)"

text \<open>
  The operations of Node and of the libraries that the program calls: \<open>readdir\<close> and
  \<open>stat\<close> of \<open>fs/promises\<close>, \<open>join\<close>, \<open>extname\<close> and \<open>basename\<close> of \<open>path\<close>,
  \<open>RawImage.read\<close> and \<open>resize\<close>, \<open>AutoProcessor.from_pretrained\<close>,
  \<open>AutoModel.from_pretrained\<close>, \<open>ort.InferenceSession.create\<close>, the labels file as read
  and parsed, and the two readings of \<open>Date.now()\<close> that \<open>search\<close> takes.
\<close>

record env =
  readdir :: "string \<Rightarrow> error + string list"
  stat :: "string \<Rightarrow> error + Stats"
  join :: "string \<Rightarrow> string \<Rightarrow> string"
  extname :: "string \<Rightarrow> string"
  basename :: "string \<Rightarrow> string"
  RawImage_read :: "string \<Rightarrow> error + RawImage"
  AutoProcessor_from_pretrained :: "string \<Rightarrow> error + Processor"
  AutoModel_from_pretrained :: "string \<Rightarrow> error + PreTrainedModel"
  RawImage_resize :: "RawImage \<Rightarrow> nat \<Rightarrow> nat \<Rightarrow> error + RawImage"
  InferenceSession_create :: "string \<Rightarrow> error + InferenceSession"
  read_labels :: "error + string list"
  startTime :: int
  endTime :: int

section \<open>utils.ts\<close>

definition SUPPORTED_IMAGE_FORMATS :: "string list" where
  "SUPPORTED_IMAGE_FORMATS = [''.jpg'', ''.jpeg'', ''.png'', ''.bmp'', ''.webp'', ''.gif'']"

text \<open>\<open>String.prototype.toLowerCase\<close> on the ASCII letters.\<close>

definition toLowerCase :: "string \<Rightarrow> string" where
  "toLowerCase s =
     map (\<lambda>c. let n = (of_char c :: nat) in if 65 \<le> n \<and> n \<le> 90 then char_of (n + 32) else c) s"

definition isImageFile :: "env \<Rightarrow> string \<Rightarrow> bool" where
  "isImageFile E filename =
     (let ext = toLowerCase (extname E filename) in ext \<in> set SUPPORTED_IMAGE_FORMATS)"

text \<open>The \<open>for (const file of files)\<close> loop of \<open>getImageFiles\<close>, with \<open>imagePaths\<close> as accumulator.\<close>

fun getImageFiles_loop :: "env \<Rightarrow> string \<Rightarrow> string list \<Rightarrow> string list \<Rightarrow> error + string list" where
  "getImageFiles_loop E directory [] imagePaths = Inr imagePaths"
| "getImageFiles_loop E directory (file # files) imagePaths =
     (let fullPath = join E directory file in
      case stat E fullPath of
        Inl e \<Rightarrow> Inl e
      | Inr fileStat \<Rightarrow>
          if isFile fileStat \<and> isImageFile E file
          then getImageFiles_loop E directory files (imagePaths @ [fullPath])
          else getImageFiles_loop E directory files imagePaths)"

text \<open>The body of the \<open>try\<close> block, then the \<open>catch\<close> clause around all of it.\<close>

definition getImageFiles_try :: "env \<Rightarrow> string \<Rightarrow> error + string list" where
  "getImageFiles_try E directory =
     (case readdir E directory of
        Inl e \<Rightarrow> Inl e
      | Inr files \<Rightarrow> getImageFiles_loop E directory files [])"

definition getImageFiles :: "env \<Rightarrow> string \<Rightarrow> error + string list" where
  "getImageFiles E directory =
     (case getImageFiles_try E directory of
        Inl e \<Rightarrow>
          if code e = Some ''ENOENT''
          then Inl (Error (''Directory not found: '' @ directory))
          else Inl e
      | Inr imagePaths \<Rightarrow> Inr imagePaths)"

section \<open>JinaClipSearch.ts\<close>

record SearchResult =
  imagePath :: string
  similarity :: real
  fileName :: string
  rank :: nat

record SearchConfig =
  imageFolder :: string
  query :: string
  threshold :: "real option"
  maxResults :: "int option"

record SearchStats =
  totalImages :: nat
  matchingImages :: nat
  processingTimeMs :: int
  stats_query :: string

record SearchResponse =
  results :: "SearchResult list"
  stats :: SearchStats

text \<open>The fields of the class; \<open>modelId\<close> is a constant.\<close>

record JinaClipSearch =
  model :: "PreTrainedModel option"
  processor :: "Processor option"
  isInitialized :: bool

definition modelId :: string where
  "modelId = ''jinaai/jina-clip-v2''"

definition new_JinaClipSearch :: JinaClipSearch where
  "new_JinaClipSearch = \<lparr>model = None, processor = None, isInitialized = False\<rparr>"

text \<open>
  \<open>initialize\<close> assigns \<open>this.processor\<close> before it loads the model, so a failed model load
  leaves the processor set and \<open>isInitialized\<close> false.
\<close>

definition initialize :: "env \<Rightarrow> JinaClipSearch \<Rightarrow> (error + unit) \<times> JinaClipSearch" where
  "initialize E s =
     (if isInitialized s then (Inr (), s)
      else case AutoProcessor_from_pretrained E modelId of
        Inl e \<Rightarrow> (Inl (Error ''Model initialization failed''), s)
      | Inr p \<Rightarrow>
          (case AutoModel_from_pretrained E modelId of
             Inl e \<Rightarrow> (Inl (Error ''Model initialization failed''), s\<lparr>processor := Some p\<rparr>)
           | Inr m \<Rightarrow> (Inr (), s\<lparr>processor := Some p, model := Some m, isInitialized := True\<rparr>)))"

definition ensureInitialized :: "JinaClipSearch \<Rightarrow> error + unit" where
  "ensureInitialized s =
     (if \<not> isInitialized s \<or> model s = None \<or> processor s = None
      then Inl (Error ''Model not initialized. Call initialize() first.'')
      else Inr ())"

text \<open>
  Row \<open>i\<close> is \<open>data.slice(i * dim, i * dim + dim)\<close>; \<open>slice\<close> clamps both ends to the
  length of the data. The dimensions interpolated into the message are left out.
\<close>

definition tensor2DToArrays :: "Tensor \<Rightarrow> error + real list list" where
  "tensor2DToArrays t =
     (case dims t of
        [batch, dim'] \<Rightarrow> Inr (map (\<lambda>i. take dim' (drop (i * dim') (data t))) [0..<batch])
      | _ \<Rightarrow> Inl (Error ''Expected 2D tensor''))"

definition normalize :: "real list \<Rightarrow> real list" where
  "normalize v =
     (let n = sqrt (foldl (\<lambda>s x. s + x * x) 0 v) in
      if n = 0 then v else map (\<lambda>x. x / n) v)"

text \<open>\<open>for (let i = 0; i < a.length; i++) s += a[i] * b[i]\<close>.\<close>

definition dot :: "real list \<Rightarrow> real list \<Rightarrow> jsnum" where
  "dot a b = foldl (\<lambda>s i. js_add s (js_mul (Val (a ! i)) (js_index b i))) (Val 0) [0..<length a]"

definition getImageEmbeddings :: "JinaClipSearch \<Rightarrow> RawImage list \<Rightarrow> error + real list list" where
  "getImageEmbeddings s images =
     (case ensureInitialized s of
        Inl e \<Rightarrow> Inl e
      | Inr _ \<Rightarrow>
     (case (processor s, model s) of
        (Some the_processor, Some the_model) \<Rightarrow>
          (case the_processor None (Some images) of
             Inl e \<Rightarrow> Inl e
           | Inr inputs \<Rightarrow>
          (case the_model inputs of
             Inl e \<Rightarrow> Inl e
           | Inr outputs \<Rightarrow>
          (case l2norm_image_embeddings outputs of
             Some t \<Rightarrow> map_sum id (map normalize) (tensor2DToArrays t)
           | None \<Rightarrow>
          (case image_embeds outputs of
             Some t \<Rightarrow> map_sum id (map normalize) (tensor2DToArrays t)
           | None \<Rightarrow>
          (case image_embeddings outputs of
             Some t \<Rightarrow> map_sum id (map normalize) (tensor2DToArrays t)
           | None \<Rightarrow> Inl (Error ''Model did not return image embeddings (l2norm_image_embeddings/image_embeds/image_embeddings).''))))))
      | _ \<Rightarrow> Inl (Error ''Model not initialized. Call initialize() first.'')))"

definition getTextEmbedding :: "JinaClipSearch \<Rightarrow> string \<Rightarrow> error + real list" where
  "getTextEmbedding s text =
     (case ensureInitialized s of
        Inl e \<Rightarrow> Inl e
      | Inr _ \<Rightarrow>
     (case (processor s, model s) of
        (Some the_processor, Some the_model) \<Rightarrow>
          (let prefix = ''Represent the query for retrieving evidence documents: '' in
           case the_processor (Some [prefix @ text]) None of
             Inl e \<Rightarrow> Inl e
           | Inr inputs \<Rightarrow>
          (case the_model inputs of
             Inl e \<Rightarrow> Inl e
           | Inr outputs \<Rightarrow>
          (case l2norm_text_embeddings outputs of
             Some t \<Rightarrow> Inr (normalize (data t))
           | None \<Rightarrow>
          (case text_embeds outputs of
             Some t \<Rightarrow> Inr (normalize (data t))
           | None \<Rightarrow>
          (case text_embeddings outputs of
             Some t \<Rightarrow> Inr (normalize (data t))
           | None \<Rightarrow> Inl (Error ''Model did not return text embeddings (l2norm_text_embeddings/text_embeds/text_embeddings).''))))))
      | _ \<Rightarrow> Inl (Error ''Model not initialized. Call initialize() first.'')))"

text \<open>
  \<open>cosineSimilarity\<close> in double arithmetic: every sum, product, square root and quotient
  is rounded as the machine rounds it.
\<close>

definition cosineSimilarity :: "real list \<Rightarrow> real list \<Rightarrow> double" where
  "cosineSimilarity vecA vecB =
     (let dotProduct =
            foldl (\<lambda>sum i. d_add sum (d_mul (Finite (vecA ! i)) (d_index vecB i))) (Finite 0)
              [0..<length vecA];
          magnitudeA = d_sqrt (foldl (\<lambda>sum val. d_add sum (d_mul (Finite val) (Finite val))) (Finite 0) vecA);
          magnitudeB = d_sqrt (foldl (\<lambda>sum val. d_add sum (d_mul (Finite val) (Finite val))) (Finite 0) vecB)
      in if magnitudeA = Finite 0 \<or> magnitudeB = Finite 0 then Finite 0
         else d_div dotProduct (d_mul magnitudeA magnitudeB))"

text \<open>
  \<open>Promise.all\<close> over the reads: the images in order, or a rejection (taken in list
  order here).
\<close>

fun Promise_all :: "(error + 'a) list \<Rightarrow> error + 'a list" where
  "Promise_all [] = Inr []"
| "Promise_all (Inl e # ps) = Inl e"
| "Promise_all (Inr x # ps) = (case Promise_all ps of Inl e \<Rightarrow> Inl e | Inr xs \<Rightarrow> Inr (x # xs))"

text \<open>
  \<open>Array.prototype.sort\<close> with a comparator. The language requires the sort to be stable,
  and for a consistent comparator every stable sort returns the same list; it is written
  here as insertion from the right, an element going before the first one it does not
  compare greater than.
\<close>

fun Array_sort_insert :: "('a \<Rightarrow> 'a \<Rightarrow> real) \<Rightarrow> 'a \<Rightarrow> 'a list \<Rightarrow> 'a list" where
  "Array_sort_insert cmp x [] = [x]"
| "Array_sort_insert cmp x (y # ys) =
     (if cmp x y \<le> 0 then x # y # ys else y # Array_sort_insert cmp x ys)"

definition Array_sort :: "('a \<Rightarrow> 'a \<Rightarrow> real) \<Rightarrow> 'a list \<Rightarrow> 'a list" where
  "Array_sort cmp xs = foldr (Array_sort_insert cmp) xs []"

text \<open>\<open>xs.slice(0, e)\<close>: a negative \<open>e\<close> counts from the end of the array.\<close>

definition Array_slice0 :: "'a list \<Rightarrow> int \<Rightarrow> 'a list" where
  "Array_slice0 xs e =
     (let len = int (length xs);
          final = (if e < 0 then max (len + e) 0 else min e len)
      in take (nat final) xs)"

text \<open>
  The scoring loop of \<open>search\<close>. \<open>imageEmbeddings[i]\<close> past the end is \<open>undefined\<close>, and
  \<open>dot\<close> then fails on \<open>a.length\<close>. A similarity of \<open>NaN\<close> fails the test
  \<open>similarity >= threshold\<close>, so every result that is pushed holds a real.
\<close>

definition search_scores ::
  "env \<Rightarrow> string list \<Rightarrow> real list list \<Rightarrow> real list \<Rightarrow> real \<Rightarrow> error + SearchResult list" where
  "search_scores E imagePaths imageEmbeddings textEmbedding thr =
     foldl (\<lambda>acc i.
        case acc of
          Inl e \<Rightarrow> Inl e
        | Inr res \<Rightarrow>
            if i < length imageEmbeddings then
              (case dot (imageEmbeddings ! i) textEmbedding of
                 NaN \<Rightarrow> Inr res
               | Val sim \<Rightarrow>
                   if thr \<le> sim
                   then Inr (res @ [\<lparr>imagePath = imagePaths ! i, similarity = sim,
                                     fileName = basename E (imagePaths ! i), rank = 0\<rparr>])
                   else Inr res)
            else Inl (TypeError ''Cannot read properties of undefined''))
       (Inr []) [0..<length imagePaths]"

text \<open>\<open>limitedResults.forEach((r, idx) => (r.rank = idx + 1))\<close>.\<close>

definition assign_ranks :: "SearchResult list \<Rightarrow> SearchResult list" where
  "assign_ranks limitedResults = map (\<lambda>(idx, r). r\<lparr>rank := idx + 1\<rparr>) (enumerate 0 limitedResults)"

text \<open>
  \<open>search\<close> reads the fields of the object and assigns none, so the object comes back as
  it was. The defaults of the destructuring are \<open>threshold = 0.3\<close> and \<open>maxResults = 100\<close>.
\<close>

definition the_threshold :: "SearchConfig \<Rightarrow> real" where
  "the_threshold config = (case threshold config of None \<Rightarrow> 0.3 | Some t \<Rightarrow> t)"

definition the_maxResults :: "SearchConfig \<Rightarrow> int" where
  "the_maxResults config = (case maxResults config of None \<Rightarrow> 100 | Some m \<Rightarrow> m)"

definition search_body :: "env \<Rightarrow> SearchConfig \<Rightarrow> JinaClipSearch \<Rightarrow> error + SearchResponse" where
  "search_body E config s =
     (case getImageFiles E (imageFolder config) of
        Inl e \<Rightarrow> Inl e
      | Inr imagePaths \<Rightarrow>
          if length imagePaths = 0
          then Inr \<lparr>results = [],
                    stats = \<lparr>totalImages = 0, matchingImages = 0,
                             processingTimeMs = endTime E - startTime E,
                             stats_query = query config\<rparr>\<rparr>
          else
     (case Promise_all (map (RawImage_read E) imagePaths) of
        Inl e \<Rightarrow> Inl e
      | Inr images \<Rightarrow>
     (case getImageEmbeddings s images of
        Inl e \<Rightarrow> Inl e
      | Inr imageEmbeddings \<Rightarrow>
     (case getTextEmbedding s (query config) of
        Inl e \<Rightarrow> Inl e
      | Inr textEmbedding \<Rightarrow>
     (case search_scores E imagePaths imageEmbeddings textEmbedding (the_threshold config) of
        Inl e \<Rightarrow> Inl e
      | Inr res \<Rightarrow>
          (let sorted_results = Array_sort (\<lambda>a b. similarity b - similarity a) res;
               limitedResults = assign_ranks (Array_slice0 sorted_results (the_maxResults config))
           in Inr \<lparr>results = limitedResults,
                   stats = \<lparr>totalImages = length imagePaths,
                            matchingImages = length limitedResults,
                            processingTimeMs = endTime E - startTime E,
                            stats_query = query config\<rparr>\<rparr>))))))"

definition search :: "env \<Rightarrow> SearchConfig \<Rightarrow> JinaClipSearch \<Rightarrow> (error + SearchResponse) \<times> JinaClipSearch" where
  "search E config s =
     (case ensureInitialized s of
        Inl e \<Rightarrow> (Inl e, s)
      | Inr _ \<Rightarrow> (search_body E config s, s))"

text \<open>\<open>Map.prototype.set\<close>: a key that is present keeps its place and takes the new value.\<close>

fun Map_set :: "('k \<times> 'v) list \<Rightarrow> 'k \<Rightarrow> 'v \<Rightarrow> ('k \<times> 'v) list" where
  "Map_set [] k v = [(k, v)]"
| "Map_set ((k', v') # m) k v = (if k' = k then (k, v) # m else (k', v') # Map_set m k v)"

text \<open>
  The loop of \<open>searchMultiple\<close>: each query is searched with the given threshold and no
  \<open>maxResults\<close>; the first failure ends the call.
\<close>

fun searchMultiple_loop ::
  "env \<Rightarrow> string \<Rightarrow> real \<Rightarrow> JinaClipSearch \<Rightarrow> string list \<Rightarrow> (string \<times> SearchResponse) list
     \<Rightarrow> error + (string \<times> SearchResponse) list" where
  "searchMultiple_loop E folder thr s [] res = Inr res"
| "searchMultiple_loop E folder thr s (q # queries) res =
     (case fst (search E \<lparr>imageFolder = folder, query = q, threshold = Some thr, maxResults = None\<rparr> s) of
        Inl e \<Rightarrow> Inl e
      | Inr response \<Rightarrow> searchMultiple_loop E folder thr s queries (Map_set res q response))"

definition searchMultiple ::
  "env \<Rightarrow> string \<Rightarrow> string list \<Rightarrow> real option \<Rightarrow> JinaClipSearch
     \<Rightarrow> (error + (string \<times> SearchResponse) list) \<times> JinaClipSearch" where
  "searchMultiple E folder queries thr s =
     (case ensureInitialized s of
        Inl e \<Rightarrow> (Inl e, s)
      | Inr _ \<Rightarrow>
          (searchMultiple_loop E folder (case thr of None \<Rightarrow> 0.3 | Some t \<Rightarrow> t) s queries [], s))"

text \<open>
  \<open>selfCheck\<close> prints either that the folder holds no image, or the dimensions and norms
  of one image embedding and of the embedding of \<open>test\<close>, and the cosine of the image
  embedding with itself. What it prints is its result here.
\<close>

datatype SelfCheckLog = NoImagesFound | SelfCheck nat real nat real double

definition l2 :: "real list \<Rightarrow> real" where
  "l2 v = sqrt (foldl (\<lambda>s x. s + x * x) 0 v)"

definition selfCheck_body :: "env \<Rightarrow> string \<Rightarrow> JinaClipSearch \<Rightarrow> error + SelfCheckLog" where
  "selfCheck_body E folder s =
     (case getImageFiles E folder of
        Inl e \<Rightarrow> Inl e
      | Inr [] \<Rightarrow> Inr NoImagesFound
      | Inr (image0 # _) \<Rightarrow>
     (case RawImage_read E image0 of
        Inl e \<Rightarrow> Inl e
      | Inr oneImage \<Rightarrow>
     (case getImageEmbeddings s [oneImage] of
        Inl e \<Rightarrow> Inl e
      | Inr embs \<Rightarrow>
     (case getTextEmbedding s ''test'' of
        Inl e \<Rightarrow> Inl e
      | Inr txt \<Rightarrow>
     (case embs of
        [] \<Rightarrow> Inl (TypeError ''Cannot read properties of undefined'')
      | emb # _ \<Rightarrow>
          Inr (SelfCheck (length emb) (l2 emb) (length txt) (l2 txt) (cosineSimilarity emb emb)))))))"

definition selfCheck :: "env \<Rightarrow> string \<Rightarrow> JinaClipSearch \<Rightarrow> (error + SelfCheckLog) \<times> JinaClipSearch" where
  "selfCheck E folder s =
     (case ensureInitialized s of
        Inl e \<Rightarrow> (Inl e, s)
      | Inr _ \<Rightarrow> (selfCheck_body E folder s, s))"

section \<open>MobileNetScorer.ts\<close>

record MobileNetScorer =
  session :: "InferenceSession option"
  labels :: "string list"
  labelEmbeddings :: "string \<rightharpoonup> real list"
  scorer_isInitialized :: bool
  getTextEmbeddingFn :: "(string \<Rightarrow> error + real list) option"

definition new_MobileNetScorer :: MobileNetScorer where
  "new_MobileNetScorer =
     \<lparr>session = None, labels = [], labelEmbeddings = Map.empty, scorer_isInitialized = False,
      getTextEmbeddingFn = None\<rparr>"

text \<open>A label whose embedding fails is skipped with a warning.\<close>

definition precomputeLabelEmbeddings :: "(string \<Rightarrow> error + real list) \<Rightarrow> MobileNetScorer \<Rightarrow> MobileNetScorer" where
  "precomputeLabelEmbeddings embedFn s =
     foldl (\<lambda>s' label.
        case embedFn label of
          Inl e \<Rightarrow> s'
        | Inr embedding \<Rightarrow> s'\<lparr>labelEmbeddings := (labelEmbeddings s')(label \<mapsto> embedding)\<rparr>)
       s (labels s)"

definition scorer_initialize ::
  "env \<Rightarrow> (string \<Rightarrow> error + real list) \<Rightarrow> MobileNetScorer \<Rightarrow> (error + unit) \<times> MobileNetScorer" where
  "scorer_initialize E embedFn s =
     (if scorer_isInitialized s then (Inr (), s)
      else
        (let s1 = s\<lparr>getTextEmbeddingFn := Some embedFn\<rparr> in
         case InferenceSession_create E ''models/mobilenet_v2.onnx'' of
           Inl e \<Rightarrow> (Inl (Error ''MobileNet initialization failed''), s1)
         | Inr sess \<Rightarrow>
             (let s2 = s1\<lparr>session := Some sess\<rparr> in
              case read_labels E of
                Inl e \<Rightarrow> (Inl (Error ''MobileNet initialization failed''), s2)
              | Inr ls \<Rightarrow>
                  (let s3 = precomputeLabelEmbeddings embedFn (s2\<lparr>labels := ls\<rparr>)
                   in (Inr (), s3\<lparr>scorer_isInitialized := True\<rparr>)))))"








text \<open>The private \<open>dot\<close> of the scorer.\<close>

definition scorer_dot :: "real list \<Rightarrow> real list \<Rightarrow> jsnum" where
  "scorer_dot a b = foldl (\<lambda>sum i. js_add sum (js_mul (Val (a ! i)) (js_index b i))) (Val 0) [0..<length a]"

text \<open>\<open>Math.max\<close> of two numbers, and of one or more: \<open>NaN\<close> if any argument is.\<close>

fun js_max :: "jsnum \<Rightarrow> jsnum \<Rightarrow> jsnum" where
  "js_max (Val a) (Val b) = Val (max a b)"
| "js_max _ _ = NaN"

definition Math_max :: "jsnum \<Rightarrow> jsnum list \<Rightarrow> jsnum" where
  "Math_max x xs = foldl js_max x xs"

text \<open>A label is looked up in the table; an array that is found is truthy whatever it holds.\<close>

definition computeSemanticScore :: "MobileNetScorer \<Rightarrow> string list \<Rightarrow> real list \<Rightarrow> jsnum" where
  "computeSemanticScore s imageLabels queryEmbedding =
     (if length imageLabels = 0 then Val 0.0
      else
        (let similarities =
               foldl (\<lambda>sims label.
                  case labelEmbeddings s label of
                    Some labelEmbedding \<Rightarrow> sims @ [scorer_dot queryEmbedding labelEmbedding]
                  | None \<Rightarrow> sims)
                 [] imageLabels
         in case similarities of
              [] \<Rightarrow> Val 0.0
            | x # xs \<Rightarrow> Math_max x xs))"

section \<open>Score fusion\<close>

text \<open>
  Modelled from the spec: the search that fuses the two scores (the \<open>JinaClipSearch\<close> that
  the second \<open>index.ts\<close> initializes with \<open>enableAuxScorer\<close> and that calls
  \<open>MobileNetScorer\<close>) is missing from the sources; only its configuration type, its caller
  and the scorer are there. The spec's scoring operation is written out here from section
  4.2: the visual score is the dot product of the image vector and the query vector; with
  auxiliary scoring disabled or unavailable the fused score is the visual score; otherwise
  the secondary score is the scorer's \<open>computeSemanticScore\<close> and
  \<open>fused = (1 - fusionWeight) * visualScore + fusionWeight * secondaryScore\<close>, with
  \<open>fusionWeight\<close> clamped to \<open>[0, 1]\<close>.
\<close>

definition clamp01 :: "real \<Rightarrow> real" where
  "clamp01 w = max 0 (min 1 w)"

definition fusedScore ::
  "MobileNetScorer option \<Rightarrow> bool \<Rightarrow> real \<Rightarrow> real list \<Rightarrow> real list \<Rightarrow> string list \<Rightarrow> jsnum" where
  "fusedScore scorer enableAuxScorer fusionWeight imageVector queryVector auxLabels =
     (let visualScore = dot imageVector queryVector in
      case (enableAuxScorer, scorer) of
        (True, Some sc) \<Rightarrow>
          (let secondaryScore = computeSemanticScore sc auxLabels queryVector;
               w = clamp01 fusionWeight
           in js_add (js_mul (Val (1 - w)) visualScore) (js_mul (Val w) secondaryScore))
      | _ \<Rightarrow> visualScore)"

section \<open>Notions of the specification\<close>

text \<open>The dot product of two vectors, over the length of the first.\<close>

definition dot_product :: "real list \<Rightarrow> real list \<Rightarrow> real" where
  "dot_product a b = (\<Sum>i<length a. a ! i * b ! i)"



text \<open>
  The entries the ranker keeps: one for each enumerated image whose score is a number not
  below the threshold, in enumeration order, with the rank not yet assigned.
\<close>

definition kept_entries ::
  "env \<Rightarrow> string list \<Rightarrow> real list list \<Rightarrow> real list \<Rightarrow> real \<Rightarrow> SearchResult list" where
  "kept_entries E paths embs q t =
     [\<lparr>imagePath = paths ! i, similarity = v, fileName = basename E (paths ! i), rank = 0\<rparr>.
        i \<leftarrow> [0..<length paths], v \<leftarrow> (case dot (embs ! i) q of NaN \<Rightarrow> [] | Val v \<Rightarrow> [v]), t \<le> v]"

text \<open>
  \<open>ys\<close> is \<open>xs\<close> sorted by descending key with ties in their original order: a
  rearrangement of \<open>xs\<close>, non-increasing in the key, in which the entries of each key
  keep the order they have in \<open>xs\<close>.
\<close>

definition stable_descending :: "('a \<Rightarrow> real) \<Rightarrow> 'a list \<Rightarrow> 'a list \<Rightarrow> bool" where
  "stable_descending key xs ys \<longleftrightarrow>
     mset ys = mset xs \<and>
     sorted_wrt (\<lambda>a b. key b \<le> key a) ys \<and>
     (\<forall>k. filter (\<lambda>r. key r = k) ys = filter (\<lambda>r. key r = k) xs)"

text \<open>An entry of the folder that is a regular file with an extension of the allow-list.\<close>

definition is_supported_image_file :: "env \<Rightarrow> string \<Rightarrow> string \<Rightarrow> bool" where
  "is_supported_image_file E directory file =
     (case stat E (join E directory file) of
        Inl e \<Rightarrow> False
      | Inr st \<Rightarrow> isFile st \<and> toLowerCase (extname E file) \<in> set SUPPORTED_IMAGE_FORMATS)"

text \<open>
  The state of a searcher on which \<open>initialize\<close> has been called in the given worlds and
  has failed each time; \<open>None\<close> once a call has succeeded.
\<close>

fun failed_attempts :: "env list \<Rightarrow> JinaClipSearch \<Rightarrow> JinaClipSearch option" where
  "failed_attempts [] s = Some s"
| "failed_attempts (E # Es) s =
     (case initialize E s of
        (Inr u, s') \<Rightarrow> None
      | (Inl e, s') \<Rightarrow> failed_attempts Es s')"

section \<open>A concrete world\<close>

text \<open>
  A folder \<open>/photos\<close> with four images and a text file, a model that embeds an image as
  its two pixels and every text as \<open>[1, 0]\<close>, and a scorer with three labels. The
  definitions are evaluated on it, and the theorems are instantiated with it. Its
  \<open>extname\<close> and \<open>basename\<close> cut at the last dot and the last slash, as those of Node
  do on the names used here.
\<close>

definition demo_extname :: "string \<Rightarrow> string" where
  "demo_extname f =
     (if CHR ''.'' \<in> set f then CHR ''.'' # rev (takeWhile (\<lambda>c. c \<noteq> CHR ''.'') (rev f)) else [])"

definition demo_basename :: "string \<Rightarrow> string" where
  "demo_basename p = rev (takeWhile (\<lambda>c. c \<noteq> CHR ''/'') (rev p))"

definition demo_read :: "string \<Rightarrow> error + RawImage" where
  "demo_read p =
     Inr \<lparr>width = 2, height = 1, channels = 1,
          pixels = (if p = ''/photos/b.png'' then [0, 1]
                    else if p = ''/photos/d.jpeg'' then [3, 4]
                    else [1, 0])\<rparr>"

definition demo_processor :: Processor where
  "demo_processor texts images =
     (case images of
        Some imgs \<Rightarrow> Inr (ModelInputs [] (map (\<lambda>im. map real (pixels im)) imgs))
      | None \<Rightarrow> Inr (ModelInputs [[1]] []))"

definition demo_model :: PreTrainedModel where
  "demo_model inputs =
     (case inputs of
        ModelInputs ids pix \<Rightarrow>
          if pix = []
          then Inr \<lparr>l2norm_image_embeddings = None, image_embeds = None, image_embeddings = None,
                    l2norm_text_embeddings = Some \<lparr>dims = [1, 2], data = [1, 0]\<rparr>,
                    text_embeds = None, text_embeddings = None\<rparr>
          else Inr \<lparr>l2norm_image_embeddings = Some \<lparr>dims = [length pix, 2], data = concat pix\<rparr>,
                    image_embeds = None, image_embeddings = None,
                    l2norm_text_embeddings = None, text_embeds = None, text_embeddings = None\<rparr>)"

definition demo_env :: env where
  "demo_env =
     \<lparr>readdir = (\<lambda>d. if d = ''/photos''
                     then Inr [''b.png'', ''a.jpg'', ''notes.txt'', ''c.JPG'', ''d.jpeg'']
                     else Inl (SystemError ''ENOENT'' ''no such file or directory'')),
      stat = (\<lambda>p. Inr \<lparr>isFile = True\<rparr>),
      join = (\<lambda>d f. d @ ''/'' @ f),
      extname = demo_extname,
      basename = demo_basename,
      RawImage_read = demo_read,
      AutoProcessor_from_pretrained = (\<lambda>m. Inr demo_processor),
      AutoModel_from_pretrained = (\<lambda>m. Inr demo_model),
      RawImage_resize = (\<lambda>im w h. Inr im),
      InferenceSession_create = (\<lambda>p. Inl (Error ''no model file'')),
      read_labels = Inr [''cat'', ''dog'', ''bird''],
      startTime = 1000,
      endTime = 1250\<rparr>"

text \<open>The same world with an empty folder, with a model that cannot be loaded, and with a
  folder entry that \<open>readdir\<close> lists and \<open>stat\<close> does not find (a dangling symbolic link).\<close>

definition empty_env :: env where
  "empty_env = demo_env\<lparr>readdir := (\<lambda>d. Inr [])\<rparr>"

definition offline_env :: env where
  "offline_env = demo_env\<lparr>AutoModel_from_pretrained := (\<lambda>m. Inl (Error ''fetch failed''))\<rparr>"

definition dangling_env :: env where
  "dangling_env =
     demo_env\<lparr>readdir := (\<lambda>d. Inr [''broken.jpg'']),
              stat := (\<lambda>p. Inl (SystemError ''ENOENT'' ''no such file or directory, stat''))\<rparr>"

definition demo_searcher :: JinaClipSearch where
  "demo_searcher = \<lparr>model = Some demo_model, processor = Some demo_processor, isInitialized = True\<rparr>"

definition offline_searcher :: JinaClipSearch where
  "offline_searcher = \<lparr>model = None, processor = Some demo_processor, isInitialized = False\<rparr>"

definition demo_config :: SearchConfig where
  "demo_config = \<lparr>imageFolder = ''/photos'', query = ''mountain'', threshold = Some (1/2), maxResults = Some 2\<rparr>"

definition demo_paths :: "string list" where
  "demo_paths = [''/photos/b.png'', ''/photos/a.jpg'', ''/photos/c.JPG'', ''/photos/d.jpeg'']"

definition demo_images :: "RawImage list" where
  "demo_images =
     [\<lparr>width = 2, height = 1, channels = 1, pixels = [0, 1]\<rparr>,
      \<lparr>width = 2, height = 1, channels = 1, pixels = [1, 0]\<rparr>,
      \<lparr>width = 2, height = 1, channels = 1, pixels = [1, 0]\<rparr>,
      \<lparr>width = 2, height = 1, channels = 1, pixels = [3, 4]\<rparr>]"

definition demo_embeddings :: "real list list" where
  "demo_embeddings = [[0, 1], [1, 0], [1, 0], [3/5, 4/5]]"

definition demo_response :: SearchResponse where
  "demo_response =
     \<lparr>results =
        [\<lparr>imagePath = ''/photos/a.jpg'', similarity = 1, fileName = ''a.jpg'', rank = 1\<rparr>,
         \<lparr>imagePath = ''/photos/c.JPG'', similarity = 1, fileName = ''c.JPG'', rank = 2\<rparr>],
      stats = \<lparr>totalImages = 4, matchingImages = 2, processingTimeMs = 250, stats_query = ''mountain''\<rparr>\<rparr>"

definition demo_session :: InferenceSession where
  "demo_session =
     \<lparr>outputNames = [''logits''],
      run = (\<lambda>t. Inr (\<lambda>name. if name = ''logits''
                              then Some \<lparr>value_data = Some [1/10, 9/10, 1/2]\<rparr> else None))\<rparr>"


definition demo_scorer :: MobileNetScorer where
  "demo_scorer =
     \<lparr>session = Some demo_session,
      labels = [''cat'', ''dog'', ''bird''],
      labelEmbeddings = [''cat'' \<mapsto> [1, 0], ''dog'' \<mapsto> [0, 1]],
      scorer_isInitialized = True,
      getTextEmbeddingFn = None\<rparr>"



text \<open>
  The same search with threshold 0 and \<open>maxResults = -1\<close>: all four entries pass the
  threshold, \<open>neg_sorted\<close> is their list in descending order, and \<open>neg_response\<close> is what
  the search returns.
\<close>

definition neg_config :: SearchConfig where
  "neg_config = \<lparr>imageFolder = ''/photos'', query = ''mountain'', threshold = Some 0, maxResults = Some (- 1)\<rparr>"

definition neg_sorted :: "SearchResult list" where
  "neg_sorted =
     [\<lparr>imagePath = ''/photos/a.jpg'', similarity = 1, fileName = ''a.jpg'', rank = 0\<rparr>,
      \<lparr>imagePath = ''/photos/c.JPG'', similarity = 1, fileName = ''c.JPG'', rank = 0\<rparr>,
      \<lparr>imagePath = ''/photos/d.jpeg'', similarity = 3/5, fileName = ''d.jpeg'', rank = 0\<rparr>,
      \<lparr>imagePath = ''/photos/b.png'', similarity = 0, fileName = ''b.png'', rank = 0\<rparr>]"

definition neg_response :: SearchResponse where
  "neg_response =
     \<lparr>results =
        [\<lparr>imagePath = ''/photos/a.jpg'', similarity = 1, fileName = ''a.jpg'', rank = 1\<rparr>,
         \<lparr>imagePath = ''/photos/c.JPG'', similarity = 1, fileName = ''c.JPG'', rank = 2\<rparr>,
         \<lparr>imagePath = ''/photos/d.jpeg'', similarity = 3/5, fileName = ''d.jpeg'', rank = 3\<rparr>],
      stats = \<lparr>totalImages = 4, matchingImages = 3, processingTimeMs = 250, stats_query = ''mountain''\<rparr>\<rparr>"

section \<open>Vectors and scores\<close>

lemma dot_fold_prefix:
  "n \<le> length b \<Longrightarrow>
   foldl (\<lambda>s i. js_add s (js_mul (Val (a ! i)) (js_index b i))) (Val 0) [0..<n] = Val (\<Sum>i<n. a ! i * b ! i)"
  by (induction n) (simp_all add: js_index_def)

lemma dot_Val: "length a \<le> length b \<Longrightarrow> dot a b = Val (dot_product a b)"
  by (simp add: dot_def dot_product_def dot_fold_prefix)

lemma scorer_dot_Val: "length a \<le> length b \<Longrightarrow> scorer_dot a b = Val (dot_product a b)"
  by (simp add: scorer_dot_def dot_product_def dot_fold_prefix)




lemma sum_squares_fold:
  "foldl (\<lambda>s x. s + x * x) (a::real) v = a + sum_list (map (\<lambda>x. x * x) v)"
  by (induction v arbitrary: a) (simp_all add: algebra_simps)

lemma sum_squares_nonneg: "0 \<le> sum_list (map (\<lambda>x. x * x) (v::real list))"
  by (induction v) simp_all

lemma sum_squares_nth: "sum_list (map (\<lambda>x. x * x) (v::real list)) = (\<Sum>i<length v. v ! i * v ! i)"
proof -
  have "sum_list (map (\<lambda>x. x * x) v) = (\<Sum>i = 0..<length (map (\<lambda>x. x * x) v). map (\<lambda>x. x * x) v ! i)"
    by (rule sum_list_sum_nth)
  also have "\<dots> = (\<Sum>i<length v. v ! i * v ! i)"
    by (simp add: atLeast0LessThan)
  finally show ?thesis .
qed

lemma sum_squares_zero_iff: "sum_list (map (\<lambda>x. x * x) v) = 0 \<longleftrightarrow> (\<forall>x \<in> set v. x = (0::real))"
  by (induction v) (auto simp: add_nonneg_eq_0_iff sum_squares_nonneg)

lemma sum_list_divide:
  "sum_list (map (\<lambda>x. f x / c) v) = sum_list (map f v) / (c::real)"
  by (induction v) (simp_all add: add_divide_distrib)

text \<open>What \<open>normalize\<close> returns has length one, unless the vector is zero.\<close>

lemma l2_normalize:
  assumes "\<exists>x \<in> set v. x \<noteq> 0"
  shows "l2 (normalize v) = 1"
proof -
  let ?S = "sum_list (map (\<lambda>x. x * x) v)"
  have nz: "?S \<noteq> 0" using assms by (simp add: sum_squares_zero_iff)
  have nn: "0 \<le> ?S" by (rule sum_squares_nonneg)
  then have pos: "0 < sqrt ?S" using nz by simp
  have "sum_list (map (\<lambda>x. x * x) (map (\<lambda>x. x / sqrt ?S) v)) = sum_list (map (\<lambda>x. (x * x) / ?S) v)"
    using nn by (simp add: comp_def)
  also have "\<dots> = ?S / ?S"
    by (rule sum_list_divide)
  finally have "sum_list (map (\<lambda>x. x * x) (map (\<lambda>x. x / sqrt ?S) v)) = 1" using nz by simp
  then show ?thesis using pos by (simp add: l2_def normalize_def sum_squares_fold Let_def)
qed





section \<open>Rounding\<close>







section \<open>The cosine in double arithmetic\<close>

























section \<open>The scoring loop, the sort and the ranks\<close>

lemma search_scores_prefix:
  "n \<le> length embs \<Longrightarrow>
   foldl (\<lambda>acc i.
        case acc of
          Inl e \<Rightarrow> Inl e
        | Inr res \<Rightarrow>
            if i < length embs then
              (case dot (embs ! i) q of
                 NaN \<Rightarrow> Inr res
               | Val sim \<Rightarrow>
                   if thr \<le> sim
                   then Inr (res @ [\<lparr>imagePath = paths ! i, similarity = sim,
                                     fileName = basename E (paths ! i), rank = 0\<rparr>])
                   else Inr res)
            else Inl (TypeError ''Cannot read properties of undefined''))
       (Inr []) [0..<n]
   = Inr [\<lparr>imagePath = paths ! i, similarity = v, fileName = basename E (paths ! i), rank = 0\<rparr>.
        i \<leftarrow> [0..<n], v \<leftarrow> (case dot (embs ! i) q of NaN \<Rightarrow> [] | Val v \<Rightarrow> [v]), thr \<le> v]"
  by (induction n) (auto split: jsnum.splits)

lemma search_scores_ok:
  "length paths \<le> length embs \<Longrightarrow> search_scores E paths embs q t = Inr (kept_entries E paths embs q t)"
  unfolding search_scores_def kept_entries_def by (rule search_scores_prefix)

lemma foldl_Inl:
  "foldl (\<lambda>acc i. case acc of Inl e \<Rightarrow> Inl e | Inr res \<Rightarrow> f res i) (Inl e) xs = Inl e"
  by (induction xs) simp_all

text \<open>With fewer embeddings than images the loop fails, and no result is kept.\<close>

lemma search_scores_short:
  assumes "length embs < length paths"
  shows "search_scores E paths embs q t = Inl (TypeError ''Cannot read properties of undefined'')"
proof -
  have cut: "[0..<length paths] = [0..<length embs] @ length embs # [Suc (length embs)..<length paths]"
    using assms by (metis le0 upt_add_eq_append upt_conv_Cons le_add_diff_inverse less_imp_le_nat)
  show ?thesis
    unfolding search_scores_def cut by (simp add: search_scores_prefix foldl_Inl)
qed

lemma search_scores_Inr:
  assumes "search_scores E paths embs q t = Inr res"
  shows "res = kept_entries E paths embs q t \<and> length paths \<le> length embs"
proof (cases "length paths \<le> length embs")
  case True
  then show ?thesis using assms by (simp add: search_scores_ok)
next
  case False
  then have "length embs < length paths" by simp
  from search_scores_short[OF this] assms show ?thesis by simp
qed

lemma kept_entries_threshold: "r \<in> set (kept_entries E paths embs q t) \<Longrightarrow> t \<le> similarity r"
  by (auto simp: kept_entries_def split: jsnum.splits if_splits)


lemma Array_sort_insert_insort:
  "Array_sort_insert (\<lambda>a b. key b - key a) x ys = insort_key (\<lambda>r. - key r) x ys"
  by (induction ys) simp_all

lemma Array_sort_sort_key:
  "Array_sort (\<lambda>a b. key b - key a) xs = sort_key (\<lambda>r. - key r) xs"
  by (induction xs) (simp_all add: Array_sort_def Array_sort_insert_insort)

lemma Array_sort_stable_descending:
  "stable_descending key xs (Array_sort (\<lambda>a b. key b - key a) xs)"
proof -
  have "sorted (map (\<lambda>r. - key r) (sort_key (\<lambda>r. - key r) xs))"
    by (rule sorted_sort_key)
  then have s: "sorted_wrt (\<lambda>a b. key b \<le> key a) (sort_key (\<lambda>r. - key r) xs)"
    by (simp add: sorted_wrt_map)
  have "filter (\<lambda>r. - key r = - k) (sort_key (\<lambda>r. - key r) xs) = filter (\<lambda>r. - key r = - k) xs" for k
    by (rule sort_key_stable)
  then have f: "filter (\<lambda>r. key r = k) (sort_key (\<lambda>r. - key r) xs) = filter (\<lambda>r. key r = k) xs" for k
    by simp
  show ?thesis
    unfolding stable_descending_def Array_sort_sort_key using s f by simp
qed

text \<open>The three conditions of \<open>stable_descending\<close> leave one list only.\<close>

lemma stable_descending_unique:
  assumes "stable_descending key xs ys" and "stable_descending key xs zs"
  shows "ys = zs"
proof -
  have "sort_key (\<lambda>r. - key r) xs = us" if "stable_descending key xs us" for us
  proof (rule properties_for_sort_key)
    show "mset us = mset xs" using that by (simp add: stable_descending_def)
    show "sorted (map (\<lambda>r. - key r) us)"
      using that by (simp add: stable_descending_def sorted_wrt_map)
    show "\<And>k. k \<in> set us \<Longrightarrow> filter (\<lambda>x. - key k = - key x) us = filter (\<lambda>x. - key k = - key x) xs"
    proof -
      fix k
      have "filter (\<lambda>r. key r = key k) us = filter (\<lambda>r. key r = key k) xs"
        using that by (simp add: stable_descending_def)
      moreover have "(\<lambda>x. - key k = - key x) = (\<lambda>r. key r = key k)" by auto
      ultimately show "filter (\<lambda>x. - key k = - key x) us = filter (\<lambda>x. - key k = - key x) xs" by simp
    qed
  qed
  from this[OF assms(1)] this[OF assms(2)] show ?thesis by simp
qed


lemma Array_slice0_take:
  "Array_slice0 xs e = take (if 0 \<le> e then nat e else nat (int (length xs) + e)) xs"
  by (auto simp: Array_slice0_def Let_def min_def max_def)

lemma Array_slice0_prefix: "\<exists>k. Array_slice0 xs e = take k xs"
  by (auto simp: Array_slice0_def Let_def)


lemma length_assign_ranks: "length (assign_ranks xs) = length xs"
  by (simp add: assign_ranks_def)

lemma nth_assign_ranks: "i < length xs \<Longrightarrow> assign_ranks xs ! i = (xs ! i)\<lparr>rank := i + 1\<rparr>"
  by (simp add: assign_ranks_def nth_enumerate_eq)

lemma map_similarity_assign_ranks: "map similarity (assign_ranks xs) = map similarity xs"
  by (rule nth_equalityI) (simp_all add: length_assign_ranks nth_assign_ranks)

lemma map_rank_assign_ranks: "map rank (assign_ranks xs) = [1..<Suc (length xs)]"
proof -
  have "map rank (assign_ranks xs) = map Suc (map fst (enumerate 0 xs))"
    unfolding assign_ranks_def map_map by (rule map_cong) auto
  also have "\<dots> = [1..<Suc (length xs)]"
    by (simp add: map_Suc_upt del: upt_Suc)
  finally show ?thesis .
qed


section \<open>What a search that returns has done\<close>

lemma search_success:
  assumes "fst (search E config s) = Inr resp"
  shows "ensureInitialized s = Inr () \<and>
    (\<exists>imagePaths. getImageFiles E (imageFolder config) = Inr imagePaths \<and>
       totalImages (stats resp) = length imagePaths \<and>
       matchingImages (stats resp) = length (results resp) \<and>
       (imagePaths = [] \<longrightarrow> results resp = []) \<and>
       (imagePaths \<noteq> [] \<longrightarrow>
          (\<exists>images embs q.
             Promise_all (map (RawImage_read E) imagePaths) = Inr images \<and>
             getImageEmbeddings s images = Inr embs \<and>
             getTextEmbedding s (query config) = Inr q \<and>
             length imagePaths \<le> length embs \<and>
             results resp =
               assign_ranks (Array_slice0
                 (Array_sort (\<lambda>a b. similarity b - similarity a)
                    (kept_entries E imagePaths embs q (the_threshold config)))
                 (the_maxResults config)))))"
proof -
  from assms have init: "ensureInitialized s = Inr ()" and body: "search_body E config s = Inr resp"
    by (auto simp: search_def split: sum.splits)
  from body obtain imagePaths where paths: "getImageFiles E (imageFolder config) = Inr imagePaths"
    by (auto simp: search_body_def split: sum.splits)
  show ?thesis
  proof (cases "imagePaths = []")
    case True
    with body paths init show ?thesis by (auto simp: search_body_def)
  next
    case False
    with body paths obtain images embs q res where
      a: "Promise_all (map (RawImage_read E) imagePaths) = Inr images"
      and b: "getImageEmbeddings s images = Inr embs"
      and c: "getTextEmbedding s (query config) = Inr q"
      and d: "search_scores E imagePaths embs q (the_threshold config) = Inr res"
      and r: "resp = \<lparr>results = assign_ranks (Array_slice0 (Array_sort (\<lambda>a b. similarity b - similarity a) res) (the_maxResults config)),
                 stats = \<lparr>totalImages = length imagePaths,
                          matchingImages = length (assign_ranks (Array_slice0 (Array_sort (\<lambda>a b. similarity b - similarity a) res) (the_maxResults config))),
                          processingTimeMs = endTime E - startTime E, stats_query = query config\<rparr>\<rparr>"
      by (auto simp: search_body_def Let_def split: sum.splits)
    from search_scores_Inr[OF d] have res: "res = kept_entries E imagePaths embs q (the_threshold config)"
      and len: "length imagePaths \<le> length embs" by simp_all
    show ?thesis using init paths False a b c len r res by simp
  qed
qed

section \<open>Enumeration of the image files\<close>

lemma getImageFiles_loop_Inr:
  "getImageFiles_loop E d files acc = Inr ps \<Longrightarrow>
   ps = acc @ map (join E d) (filter (is_supported_image_file E d) files)"
proof (induction files arbitrary: acc)
  case Nil
  then show ?case by simp
next
  case (Cons f files)
  from Cons.prems obtain st where st: "stat E (join E d f) = Inr st"
    by (cases "stat E (join E d f)") (simp_all add: Let_def)
  show ?case
  proof (cases "isFile st \<and> isImageFile E f")
    case True
    with st have sup: "is_supported_image_file E d f"
      by (simp add: is_supported_image_file_def isImageFile_def)
    from Cons.prems st True have "getImageFiles_loop E d files (acc @ [join E d f]) = Inr ps"
      by (simp add: Let_def)
    from Cons.IH[OF this] sup show ?thesis by simp
  next
    case False
    with st have sup: "\<not> is_supported_image_file E d f"
      by (simp add: is_supported_image_file_def isImageFile_def)
    from Cons.prems st False have "getImageFiles_loop E d files acc = Inr ps"
      by (simp add: Let_def)
    from Cons.IH[OF this] sup show ?thesis by simp
  qed
qed

lemma getImageFiles_Inr:
  assumes "getImageFiles E d = Inr ps"
  shows "\<exists>files. readdir E d = Inr files \<and> ps = map (join E d) (filter (is_supported_image_file E d) files)"
proof -
  from assms have t: "getImageFiles_try E d = Inr ps"
    by (auto simp: getImageFiles_def split: sum.splits if_splits)
  then obtain files where r: "readdir E d = Inr files" and l: "getImageFiles_loop E d files [] = Inr ps"
    by (auto simp: getImageFiles_try_def split: sum.splits)
  from getImageFiles_loop_Inr[OF l] r show ?thesis by simp
qed

lemma getImageFiles_empty_folder:
  "readdir E d = Inr [] \<Longrightarrow> getImageFiles E d = Inr []"
  by (simp add: getImageFiles_def getImageFiles_try_def)

text \<open>
  A missing directory is reported as such, by enumeration and by a search of an
  initialized searcher; an error whose code is not \<open>ENOENT\<close> passes through unchanged.
\<close>

lemma getImageFiles_missing_directory:
  "readdir E d = Inl (SystemError ''ENOENT'' m) \<Longrightarrow>
   getImageFiles E d = Inl (Error (''Directory not found: '' @ d))"
  by (simp add: getImageFiles_def getImageFiles_try_def)

lemma search_missing_directory:
  assumes "ensureInitialized s = Inr ()" and "readdir E (imageFolder config) = Inl (SystemError ''ENOENT'' m)"
  shows "search E config s = (Inl (Error (''Directory not found: '' @ imageFolder config)), s)"
  using assms by (simp add: search_def search_body_def getImageFiles_missing_directory)

lemma getImageFiles_other_error:
  "getImageFiles_try E d = Inl e \<Longrightarrow> code e \<noteq> Some ''ENOENT'' \<Longrightarrow> getImageFiles E d = Inl e"
  by (simp add: getImageFiles_def)

section \<open>Initialization\<close>

lemma failed_attempts_not_initialized:
  "failed_attempts Es s0 = Some s \<Longrightarrow> \<not> isInitialized s0 \<Longrightarrow> \<not> isInitialized s"
proof (induction Es arbitrary: s0)
  case Nil
  then show ?case by simp
next
  case (Cons E Es)
  then show ?case
    by (auto simp: initialize_def split: sum.splits prod.splits if_splits)
qed

lemma ensureInitialized_fails:
  "\<not> isInitialized s \<Longrightarrow> ensureInitialized s = Inl (Error ''Model not initialized. Call initialize() first.'')"
  by (simp add: ensureInitialized_def)

section \<open>The semantic score\<close>

lemma similarities_fold:
  "foldl (\<lambda>sims label.
      case tbl label of
        Some labelEmbedding \<Rightarrow> sims @ [f labelEmbedding]
      | None \<Rightarrow> sims) acc ls
   = acc @ map f (List.map_filter tbl ls)"
  by (induction ls arbitrary: acc) (simp_all split: option.splits)

lemma Math_max_Val: "Math_max (Val x) (map Val xs) = Val (Max (set (x # xs)))"
proof (induction xs arbitrary: x)
  case Nil
  then show ?case by (simp add: Math_max_def)
next
  case (Cons y ys)
  have "Math_max (Val x) (map Val (y # ys)) = Math_max (Val (max x y)) (map Val ys)"
    by (simp add: Math_max_def)
  also have "\<dots> = Val (Max (set (max x y # ys)))" by (rule Cons.IH)
  also have "Max (set (max x y # ys)) = Max (set (x # y # ys))"
    by (cases "ys = []") (simp_all add: max.assoc)
  finally show ?case .
qed

lemma computeSemanticScore_found:
  assumes dims: "\<forall>l \<in> set imageLabels. \<forall>e. labelEmbeddings s l = Some e \<longrightarrow> length queryEmbedding \<le> length e"
  shows "computeSemanticScore s imageLabels queryEmbedding =
           (if List.map_filter (labelEmbeddings s) imageLabels = [] then Val 0
            else Val (Max (dot_product queryEmbedding ` set (List.map_filter (labelEmbeddings s) imageLabels))))"
proof -
  let ?found = "List.map_filter (labelEmbeddings s) imageLabels"
  have len: "\<forall>e \<in> set ?found. length queryEmbedding \<le> length e"
    using dims by (auto simp: map_filter_def)
  then have sims: "map (scorer_dot queryEmbedding) ?found = map Val (map (dot_product queryEmbedding) ?found)"
    by (simp add: scorer_dot_Val)
  show ?thesis
  proof (cases "?found = []")
    case True
    then show ?thesis
      by (simp add: computeSemanticScore_def similarities_fold Let_def)
  next
    case False
    then obtain e es where f: "?found = e # es" by (cases ?found) auto
    then have ne: "imageLabels \<noteq> []" by (auto simp: map_filter_def)
    from sims f have hd: "scorer_dot queryEmbedding e = Val (dot_product queryEmbedding e)"
      and tl: "map (scorer_dot queryEmbedding) es = map Val (map (dot_product queryEmbedding) es)"
      by simp_all
    have "computeSemanticScore s imageLabels queryEmbedding =
            Math_max (scorer_dot queryEmbedding e) (map (scorer_dot queryEmbedding) es)"
      using ne f by (simp add: computeSemanticScore_def similarities_fold Let_def)
    also have "\<dots> = Math_max (Val (dot_product queryEmbedding e)) (map Val (map (dot_product queryEmbedding) es))"
      by (simp only: hd tl)
    also have "\<dots> = Val (Max (set (dot_product queryEmbedding e # map (dot_product queryEmbedding) es)))"
      by (rule Math_max_Val)
    also have "set (dot_product queryEmbedding e # map (dot_product queryEmbedding) es) = dot_product queryEmbedding ` set ?found"
      by (simp add: f)
    finally show ?thesis using False by simp
  qed
qed

lemma computeSemanticScore_is_Val:
  assumes "\<forall>l \<in> set imageLabels. \<forall>e. labelEmbeddings s l = Some e \<longrightarrow> length queryEmbedding \<le> length e"
  shows "\<exists>v. computeSemanticScore s imageLabels queryEmbedding = Val v"
  using computeSemanticScore_found[OF assms] by (simp split: if_splits)

section \<open>The program on the concrete world\<close>

lemma upt_2: "[0..<2] = [0, 1]"
  by (simp add: upt_rec)

lemma upt_3: "[0..<3] = [0, 1, 2]"
  by (simp add: upt_rec)

lemma upt_4: "[0..<4] = [0, 1, 2, 3]"
  by (simp add: upt_rec)

lemma lessThan_2: "{..<2::nat} = {0, 1}"
  by auto

lemma sqrt_25: "sqrt 25 = 5"
  by (rule real_sqrt_unique) simp_all

lemma demo_initialize: "initialize demo_env new_JinaClipSearch = (Inr (), demo_searcher)"
  by (simp add: initialize_def demo_env_def new_JinaClipSearch_def demo_searcher_def)

lemma offline_initialize:
  "initialize offline_env new_JinaClipSearch = (Inl (Error ''Model initialization failed''), offline_searcher)"
  "initialize offline_env offline_searcher = (Inl (Error ''Model initialization failed''), offline_searcher)"
  by (simp_all add: initialize_def offline_env_def demo_env_def new_JinaClipSearch_def offline_searcher_def)

lemma demo_ensure: "ensureInitialized demo_searcher = Inr ()"
  by (simp add: ensureInitialized_def demo_searcher_def)

lemma demo_fields:
  "processor demo_searcher = Some demo_processor" "model demo_searcher = Some demo_model"
  by (simp_all add: demo_searcher_def)

lemma demo_config_fields:
  "imageFolder demo_config = ''/photos''" "query demo_config = ''mountain''"
  "the_threshold demo_config = 1/2" "the_maxResults demo_config = 2"
  by (simp_all add: demo_config_def the_threshold_def the_maxResults_def)

lemma demo_readdir:
  "readdir demo_env ''/photos'' = Inr [''b.png'', ''a.jpg'', ''notes.txt'', ''c.JPG'', ''d.jpeg'']"
  by (simp add: demo_env_def)

lemma demo_getImageFiles: "getImageFiles demo_env ''/photos'' = Inr demo_paths"
  by (simp add: getImageFiles_def getImageFiles_try_def demo_env_def isImageFile_def
      demo_extname_def toLowerCase_def SUPPORTED_IMAGE_FORMATS_def demo_paths_def Let_def
      char_of_def bit_Suc_0_iff)

lemma demo_supported_count:
  "length (filter (is_supported_image_file demo_env ''/photos'')
     [''b.png'', ''a.jpg'', ''notes.txt'', ''c.JPG'', ''d.jpeg'']) = 4"
  by (simp add: is_supported_image_file_def demo_env_def demo_extname_def toLowerCase_def
      SUPPORTED_IMAGE_FORMATS_def Let_def char_of_def bit_Suc_0_iff)

lemma demo_paths_length: "length demo_paths = 4"
  by (simp add: demo_paths_def)

lemma demo_read_all: "Promise_all (map (RawImage_read demo_env) demo_paths) = Inr demo_images"
  by (simp add: demo_env_def demo_paths_def demo_read_def demo_images_def)

lemma demo_image_embeddings: "getImageEmbeddings demo_searcher demo_images = Inr demo_embeddings"
  by (simp add: getImageEmbeddings_def demo_ensure demo_fields demo_processor_def
      demo_model_def demo_images_def tensor2DToArrays_def normalize_def demo_embeddings_def
      upt_4 sqrt_25 Let_def)

lemma demo_text_embedding: "getTextEmbedding demo_searcher ''mountain'' = Inr [1, 0]"
  by (simp add: getTextEmbedding_def demo_ensure demo_fields demo_processor_def
      demo_model_def normalize_def Let_def)

lemma demo_dots:
  "dot [0, 1] [1, 0] = Val 0" "dot [1, 0] [1, 0] = Val 1" "dot [3/5, 4/5] [1, 0] = Val (3/5)"
  by (simp_all add: dot_def upt_2 js_index_def)

lemma demo_scores:
  "search_scores demo_env demo_paths demo_embeddings [1, 0] (1/2) =
     Inr [\<lparr>imagePath = ''/photos/a.jpg'', similarity = 1, fileName = ''a.jpg'', rank = 0\<rparr>,
          \<lparr>imagePath = ''/photos/c.JPG'', similarity = 1, fileName = ''c.JPG'', rank = 0\<rparr>,
          \<lparr>imagePath = ''/photos/d.jpeg'', similarity = 3/5, fileName = ''d.jpeg'', rank = 0\<rparr>]"
  by (simp add: search_scores_def demo_paths_def demo_embeddings_def upt_4 demo_dots
      demo_env_def demo_basename_def)

lemma demo_ranking:
  "assign_ranks (Array_slice0 (Array_sort (\<lambda>a b. similarity b - similarity a)
     [\<lparr>imagePath = ''/photos/a.jpg'', similarity = 1, fileName = ''a.jpg'', rank = 0\<rparr>,
      \<lparr>imagePath = ''/photos/c.JPG'', similarity = 1, fileName = ''c.JPG'', rank = 0\<rparr>,
      \<lparr>imagePath = ''/photos/d.jpeg'', similarity = 3/5, fileName = ''d.jpeg'', rank = 0\<rparr>]) 2)
   = results demo_response"
  by (simp add: Array_sort_def Array_slice0_def assign_ranks_def enumerate_eq_zip upt_2 demo_response_def)

lemma demo_times: "endTime demo_env - startTime demo_env = 250"
  by (simp add: demo_env_def)

text \<open>
  The search of the folder with threshold \<open>1/2\<close> and at most two results: \<open>b.png\<close>
  scores 0 and is dropped, \<open>a.jpg\<close> and \<open>c.JPG\<close> tie at 1 and keep their order,
  \<open>d.jpeg\<close> scores \<open>3/5\<close> and is cut off.
\<close>

lemma demo_search: "search demo_env demo_config demo_searcher = (Inr demo_response, demo_searcher)"
  by (simp add: search_def search_body_def demo_ensure demo_config_fields demo_getImageFiles
      demo_paths_length demo_read_all demo_image_embeddings demo_text_embedding
      demo_scores demo_ranking demo_times Let_def)
    (simp add: demo_response_def)

lemma demo_run: "fst (search demo_env demo_config demo_searcher) = Inr demo_response"
  by (simp add: demo_search)

lemma demo_run_paths: "getImageFiles demo_env (imageFolder demo_config) = Inr demo_paths"
  by (simp add: demo_config_fields demo_getImageFiles)

lemma demo_run_query: "getTextEmbedding demo_searcher (query demo_config) = Inr [1, 0]"
  by (simp add: demo_config_fields demo_text_embedding)

lemma neg_config_fields:
  "imageFolder neg_config = ''/photos''" "query neg_config = ''mountain''"
  "the_threshold neg_config = 0" "the_maxResults neg_config = - 1"
  by (simp_all add: neg_config_def the_threshold_def the_maxResults_def)

lemma neg_scores:
  "search_scores demo_env demo_paths demo_embeddings [1, 0] 0 =
     Inr [\<lparr>imagePath = ''/photos/b.png'', similarity = 0, fileName = ''b.png'', rank = 0\<rparr>,
          \<lparr>imagePath = ''/photos/a.jpg'', similarity = 1, fileName = ''a.jpg'', rank = 0\<rparr>,
          \<lparr>imagePath = ''/photos/c.JPG'', similarity = 1, fileName = ''c.JPG'', rank = 0\<rparr>,
          \<lparr>imagePath = ''/photos/d.jpeg'', similarity = 3/5, fileName = ''d.jpeg'', rank = 0\<rparr>]"
  by (simp add: search_scores_def demo_paths_def demo_embeddings_def upt_4 demo_dots
      demo_env_def demo_basename_def)

lemma neg_sorting:
  "Array_sort (\<lambda>a b. similarity b - similarity a)
     [\<lparr>imagePath = ''/photos/b.png'', similarity = 0, fileName = ''b.png'', rank = 0\<rparr>,
      \<lparr>imagePath = ''/photos/a.jpg'', similarity = 1, fileName = ''a.jpg'', rank = 0\<rparr>,
      \<lparr>imagePath = ''/photos/c.JPG'', similarity = 1, fileName = ''c.JPG'', rank = 0\<rparr>,
      \<lparr>imagePath = ''/photos/d.jpeg'', similarity = 3/5, fileName = ''d.jpeg'', rank = 0\<rparr>]
   = neg_sorted"
  by (simp add: Array_sort_def neg_sorted_def)

lemma neg_ranking: "assign_ranks (Array_slice0 neg_sorted (- 1)) = results neg_response"
  by (simp add: Array_slice0_def assign_ranks_def enumerate_eq_zip upt_3 neg_sorted_def neg_response_def)

text \<open>With \<open>maxResults = -1\<close> the search returns three of the four entries.\<close>

lemma neg_search: "search demo_env neg_config demo_searcher = (Inr neg_response, demo_searcher)"
  by (simp add: search_def search_body_def demo_ensure neg_config_fields demo_getImageFiles
      demo_paths_length demo_read_all demo_image_embeddings demo_text_embedding
      neg_scores neg_sorting neg_ranking demo_times Let_def)
    (simp add: neg_response_def)

lemma neg_run: "fst (search demo_env neg_config demo_searcher) = Inr neg_response"
  by (simp add: neg_search)

lemma neg_run_paths: "getImageFiles demo_env (imageFolder neg_config) = Inr demo_paths"
  by (simp add: neg_config_fields demo_getImageFiles)

lemma neg_run_query: "getTextEmbedding demo_searcher (query neg_config) = Inr [1, 0]"
  by (simp add: neg_config_fields demo_text_embedding)

lemma neg_kept_sorted:
  "stable_descending similarity
     (kept_entries demo_env demo_paths demo_embeddings [1, 0] (the_threshold neg_config)) neg_sorted"
proof -
  have "length demo_paths \<le> length demo_embeddings"
    by (simp add: demo_paths_def demo_embeddings_def)
  from search_scores_ok[OF this, of demo_env "[1, 0]" 0] neg_scores
  have k: "kept_entries demo_env demo_paths demo_embeddings [1, 0] (the_threshold neg_config) =
     [\<lparr>imagePath = ''/photos/b.png'', similarity = 0, fileName = ''b.png'', rank = 0\<rparr>,
      \<lparr>imagePath = ''/photos/a.jpg'', similarity = 1, fileName = ''a.jpg'', rank = 0\<rparr>,
      \<lparr>imagePath = ''/photos/c.JPG'', similarity = 1, fileName = ''c.JPG'', rank = 0\<rparr>,
      \<lparr>imagePath = ''/photos/d.jpeg'', similarity = 3/5, fileName = ''d.jpeg'', rank = 0\<rparr>]"
    by (simp add: neg_config_fields)
  show ?thesis
    unfolding k neg_sorting[symmetric] by (rule Array_sort_stable_descending)
qed






lemma demo_semantic_dims:
  "\<forall>l \<in> set [''cat'', ''zebra'', ''dog'']. \<forall>e. labelEmbeddings demo_scorer l = Some e \<longrightarrow> length [3/5, 4/5 :: real] \<le> length e"
  by (simp add: demo_scorer_def)

lemma demo_found:
  "List.map_filter (labelEmbeddings demo_scorer) [''cat'', ''zebra'', ''dog''] = [[1, 0], [0, 1]]"
  by (simp add: demo_scorer_def)

lemma demo_dot_products:
  "dot_product [3/5, 4/5] [1, 0] = 3/5" "dot_product [3/5, 4/5] [0, 1] = 4/5"
  by (simp_all add: dot_product_def lessThan_2)

section \<open>The claims\<close>

text \<open>
  C2 (as amended). A search that returns, with threshold \<open>t\<close> and a limit
  \<open>maxResults \<ge> 0\<close>, returns the entries whose score is at least \<open>t\<close>, sorted by
  descending score with ties in enumeration order, cut to the first \<open>maxResults\<close> entries,
  each with its 1-based position as rank. With a negative \<open>maxResults\<close> the sorted list
  loses its last \<open>- maxResults\<close> entries instead, since \<open>slice(0, maxResults)\<close> counts a
  negative end from the end of the array.
\<close>

theorem search_results_ranked:
  assumes run: "fst (search E config s) = Inr resp"
    and paths: "getImageFiles E (imageFolder config) = Inr imagePaths"
    and images: "imagePaths \<noteq> [] \<Longrightarrow> Promise_all (map (RawImage_read E) imagePaths) = Inr images"
    and embs: "imagePaths \<noteq> [] \<Longrightarrow> getImageEmbeddings s images = Inr imageEmbeddings"
    and q: "imagePaths \<noteq> [] \<Longrightarrow> getTextEmbedding s (query config) = Inr textEmbedding"
  shows "\<exists>sorted_entries.
           stable_descending similarity
             (kept_entries E imagePaths imageEmbeddings textEmbedding (the_threshold config)) sorted_entries \<and>
           length (results resp) =
             (if 0 \<le> the_maxResults config
              then min (nat (the_maxResults config)) (length sorted_entries)
              else nat (int (length sorted_entries) + the_maxResults config)) \<and>
           (\<forall>i < length (results resp). results resp ! i = (sorted_entries ! i)\<lparr>rank := i + 1\<rparr>)"
proof (cases "imagePaths = []")
  case True
  with search_success[OF run] paths have "results resp = []" by auto
  moreover from True have "kept_entries E imagePaths imageEmbeddings textEmbedding (the_threshold config) = []"
    by (simp add: kept_entries_def)
  ultimately show ?thesis
    by (intro exI[of _ "[]"]) (simp add: stable_descending_def)
next
  case False
  let ?kept = "kept_entries E imagePaths imageEmbeddings textEmbedding (the_threshold config)"
  let ?sorted = "Array_sort (\<lambda>a b. similarity b - similarity a) ?kept"
  let ?n = "if 0 \<le> the_maxResults config then nat (the_maxResults config)
            else nat (int (length ?sorted) + the_maxResults config)"
  from search_success[OF run] paths False images embs q
  have r: "results resp = assign_ranks (Array_slice0 ?sorted (the_maxResults config))"
    by auto
  then have r': "results resp = assign_ranks (take ?n ?sorted)"
    by (simp only: Array_slice0_take)
  have "stable_descending similarity ?kept ?sorted"
    by (rule Array_sort_stable_descending)
  moreover have "length (results resp) =
             (if 0 \<le> the_maxResults config
              then min (nat (the_maxResults config)) (length ?sorted)
              else nat (int (length ?sorted) + the_maxResults config))"
    unfolding r' length_assign_ranks by auto
  moreover have "\<forall>i < length (results resp). results resp ! i = (?sorted ! i)\<lparr>rank := i + 1\<rparr>"
    unfolding r' length_assign_ranks by (simp add: nth_assign_ranks)
  ultimately show ?thesis by blast
qed

theorem search_results_ranked_witness:
  "fst (search demo_env demo_config demo_searcher) = Inr demo_response \<and>
   getImageFiles demo_env (imageFolder demo_config) = Inr demo_paths \<and>
   Promise_all (map (RawImage_read demo_env) demo_paths) = Inr demo_images \<and>
   getImageEmbeddings demo_searcher demo_images = Inr demo_embeddings \<and>
   getTextEmbedding demo_searcher (query demo_config) = Inr [1, 0] \<and>
   the_maxResults demo_config = 2 \<and>
   (\<exists>sorted_entries.
      stable_descending similarity
        (kept_entries demo_env demo_paths demo_embeddings [1, 0] (the_threshold demo_config)) sorted_entries \<and>
      length (results demo_response) = min 2 (length sorted_entries) \<and>
      results demo_response ! 0 = (sorted_entries ! 0)\<lparr>rank := 1\<rparr> \<and>
      results demo_response ! 1 = (sorted_entries ! 1)\<lparr>rank := 2\<rparr>) \<and>
   fst (search demo_env neg_config demo_searcher) = Inr neg_response \<and>
   the_maxResults neg_config = - 1 \<and>
   (\<exists>sorted_entries.
      stable_descending similarity
        (kept_entries demo_env demo_paths demo_embeddings [1, 0] (the_threshold neg_config)) sorted_entries \<and>
      length (results neg_response) = nat (int (length sorted_entries) - 1))"
proof -
  have len: "length (results demo_response) = 2" by (simp add: demo_response_def)
  from search_results_ranked[OF demo_run demo_run_paths demo_read_all demo_image_embeddings demo_run_query]
  obtain sorted_entries where
    sd: "stable_descending similarity
        (kept_entries demo_env demo_paths demo_embeddings [1, 0] (the_threshold demo_config)) sorted_entries"
    and l: "length (results demo_response) = min 2 (length sorted_entries)"
    and n: "\<forall>i < length (results demo_response). results demo_response ! i = (sorted_entries ! i)\<lparr>rank := i + 1\<rparr>"
    by (auto simp: demo_config_fields)
  from n len have "results demo_response ! 0 = (sorted_entries ! 0)\<lparr>rank := 1\<rparr>"
    and "results demo_response ! 1 = (sorted_entries ! 1)\<lparr>rank := 2\<rparr>"
    by simp_all
  with sd l have a: "\<exists>sorted_entries.
      stable_descending similarity
        (kept_entries demo_env demo_paths demo_embeddings [1, 0] (the_threshold demo_config)) sorted_entries \<and>
      length (results demo_response) = min 2 (length sorted_entries) \<and>
      results demo_response ! 0 = (sorted_entries ! 0)\<lparr>rank := 1\<rparr> \<and>
      results demo_response ! 1 = (sorted_entries ! 1)\<lparr>rank := 2\<rparr>"
    by blast
  from search_results_ranked[OF neg_run neg_run_paths demo_read_all demo_image_embeddings neg_run_query]
  have b: "\<exists>sorted_entries.
      stable_descending similarity
        (kept_entries demo_env demo_paths demo_embeddings [1, 0] (the_threshold neg_config)) sorted_entries \<and>
      length (results neg_response) = nat (int (length sorted_entries) - 1)"
    by (auto simp: neg_config_fields)
  from a b demo_run demo_run_paths demo_read_all demo_image_embeddings demo_run_query
    demo_config_fields(4) neg_run neg_config_fields(4)
  show ?thesis by blast
qed

text \<open>
  The claim as it was stated fails at \<open>maxResults = -1\<close>: four entries pass the
  threshold, \<open>neg_sorted\<close> is their stable descending order, and the search returns three
  results, not the first \<open>-1\<close> (that is, none) of them.
\<close>

theorem search_results_ranked_counterexample:
  "the_maxResults neg_config = - 1 \<and>
   fst (search demo_env neg_config demo_searcher) = Inr neg_response \<and>
   stable_descending similarity
     (kept_entries demo_env demo_paths demo_embeddings [1, 0] (the_threshold neg_config)) neg_sorted \<and>
   length (results neg_response) = 3 \<and>
   \<not> int (length (results neg_response)) \<le> the_maxResults neg_config \<and>
   results neg_response \<noteq> assign_ranks (take (nat (the_maxResults neg_config)) neg_sorted)"
  using neg_run neg_kept_sorted
  by (simp add: neg_config_fields neg_response_def assign_ranks_def)

text \<open>
  C3. In what a search returns, every result has a similarity of at least the threshold,
  the similarities do not increase along the list, and the ranks are \<open>1, \<dots>, n\<close> for a list
  of length \<open>n\<close>.
\<close>

theorem search_results_invariants:
  assumes run: "fst (search E config s) = Inr resp"
  shows "(\<forall>r \<in> set (results resp). the_threshold config \<le> similarity r) \<and>
         sorted_wrt (\<lambda>x y. y \<le> x) (map similarity (results resp)) \<and>
         map rank (results resp) = [1..<Suc (length (results resp))]"
proof -
  obtain kept where
    r: "results resp = assign_ranks (Array_slice0 (Array_sort (\<lambda>a b. similarity b - similarity a) kept) (the_maxResults config))"
    and k: "\<forall>x \<in> set kept. the_threshold config \<le> similarity x"
  proof -
    from search_success[OF run] obtain imagePaths where
      e: "imagePaths = [] \<longrightarrow> results resp = []"
      and n: "imagePaths \<noteq> [] \<longrightarrow>
          (\<exists>images embs q.
             results resp =
               assign_ranks (Array_slice0
                 (Array_sort (\<lambda>a b. similarity b - similarity a)
                    (kept_entries E imagePaths embs q (the_threshold config)))
                 (the_maxResults config)))"
      by blast
    show thesis
    proof (cases "imagePaths = []")
      case True
      with e have "results resp = assign_ranks (Array_slice0 (Array_sort (\<lambda>a b. similarity b - similarity a) []) (the_maxResults config))"
        by (simp add: assign_ranks_def Array_slice0_def Array_sort_def)
      then show thesis using that[of "[]"] by simp
    next
      case False
      with n obtain embs q where
        "results resp = assign_ranks (Array_slice0
                 (Array_sort (\<lambda>a b. similarity b - similarity a)
                    (kept_entries E imagePaths embs q (the_threshold config)))
                 (the_maxResults config))" by blast
      then show thesis using that[of "kept_entries E imagePaths embs q (the_threshold config)"]
        by (simp add: kept_entries_threshold)
    qed
  qed
  let ?sorted = "Array_sort (\<lambda>a b. similarity b - similarity a) kept"
  obtain n where sl: "Array_slice0 ?sorted (the_maxResults config) = take n ?sorted"
    using Array_slice0_prefix by blast
  have sd: "stable_descending similarity kept ?sorted" by (rule Array_sort_stable_descending)
  then have "set ?sorted = set kept" by (metis stable_descending_def mset_eq_setD)
  then have in_kept: "set (take n ?sorted) \<subseteq> set kept" using set_take_subset by fastforce
  have sims: "map similarity (results resp) = map similarity (take n ?sorted)"
    by (simp add: r sl map_similarity_assign_ranks)
  have 1: "\<forall>r \<in> set (results resp). the_threshold config \<le> similarity r"
  proof
    fix x assume "x \<in> set (results resp)"
    then have "similarity x \<in> set (map similarity (take n ?sorted))" using sims by (metis imageI set_map)
    then obtain y where y: "y \<in> set (take n ?sorted)" and yx: "similarity y = similarity x" by auto
    from y in_kept have "y \<in> set kept" by (rule subsetD[rotated])
    with k have "the_threshold config \<le> similarity y" by (rule bspec)
    then show "the_threshold config \<le> similarity x" by (simp only: yx)
  qed
  from sd have "sorted_wrt (\<lambda>a b. similarity b \<le> similarity a) ?sorted" by (simp add: stable_descending_def)
  then have "sorted_wrt (\<lambda>a b. similarity b \<le> similarity a) (take n ?sorted)" by (rule sorted_wrt_take)
  then have 2: "sorted_wrt (\<lambda>x y. y \<le> x) (map similarity (results resp))"
    by (simp add: sims sorted_wrt_map)
  have 3: "map rank (results resp) = [1..<Suc (length (results resp))]"
    unfolding r by (simp only: map_rank_assign_ranks length_assign_ranks)
  from 1 2 3 show ?thesis by blast
qed

theorem search_results_invariants_witness:
  "fst (search demo_env demo_config demo_searcher) = Inr demo_response \<and>
   results demo_response \<noteq> [] \<and>
   the_threshold demo_config \<le> similarity (results demo_response ! 0) \<and>
   the_threshold demo_config \<le> similarity (results demo_response ! 1) \<and>
   sorted_wrt (\<lambda>x y. y \<le> x) (map similarity (results demo_response)) \<and>
   map rank (results demo_response) = [1..<Suc (length (results demo_response))]"
proof -
  have mem: "results demo_response ! 0 \<in> set (results demo_response)"
    "results demo_response ! 1 \<in> set (results demo_response)"
    "results demo_response \<noteq> []"
    by (simp_all add: demo_response_def)
  from search_results_invariants[OF demo_run] mem demo_run show ?thesis by blast
qed

text \<open>
  C4. In what a search returns, \<open>totalImages\<close> is the number of entries of the folder that
  are regular files with an extension of the allow-list, whatever the threshold, and
  \<open>matchingImages\<close> is the length of the result list. An initialized searcher on an empty
  folder returns no result and both counts zero.
\<close>

theorem search_stats_counts:
  assumes listing: "readdir E (imageFolder config) = Inr files"
  shows "(\<forall>resp. fst (search E config s) = Inr resp \<longrightarrow>
            totalImages (stats resp) = length (filter (is_supported_image_file E (imageFolder config)) files) \<and>
            matchingImages (stats resp) = length (results resp)) \<and>
         (files = [] \<and> ensureInitialized s = Inr () \<longrightarrow>
            (\<exists>resp. fst (search E config s) = Inr resp \<and> results resp = [] \<and>
               totalImages (stats resp) = 0 \<and> matchingImages (stats resp) = 0))"
proof (intro conjI allI impI)
  fix resp assume run: "fst (search E config s) = Inr resp"
  from search_success[OF run] obtain imagePaths where
    p: "getImageFiles E (imageFolder config) = Inr imagePaths"
    and t: "totalImages (stats resp) = length imagePaths"
    and m: "matchingImages (stats resp) = length (results resp)" by blast
  from getImageFiles_Inr[OF p] listing
  have "imagePaths = map (join E (imageFolder config)) (filter (is_supported_image_file E (imageFolder config)) files)"
    by auto
  with t show "totalImages (stats resp) = length (filter (is_supported_image_file E (imageFolder config)) files)"
    by simp
  from m show "matchingImages (stats resp) = length (results resp)" .
next
  assume a: "files = [] \<and> ensureInitialized s = Inr ()"
  with listing have "getImageFiles E (imageFolder config) = Inr []"
    by (simp add: getImageFiles_empty_folder)
  with a show "\<exists>resp. fst (search E config s) = Inr resp \<and> results resp = [] \<and>
               totalImages (stats resp) = 0 \<and> matchingImages (stats resp) = 0"
    by (simp add: search_def search_body_def)
qed

theorem search_stats_counts_witness:
  "readdir demo_env (imageFolder demo_config) = Inr [''b.png'', ''a.jpg'', ''notes.txt'', ''c.JPG'', ''d.jpeg''] \<and>
   fst (search demo_env demo_config demo_searcher) = Inr demo_response \<and>
   totalImages (stats demo_response) = 4 \<and>
   matchingImages (stats demo_response) = length (results demo_response) \<and>
   readdir empty_env (imageFolder demo_config) = Inr [] \<and>
   ensureInitialized demo_searcher = Inr () \<and>
   (\<exists>resp. fst (search empty_env demo_config demo_searcher) = Inr resp \<and> results resp = [] \<and>
      totalImages (stats resp) = 0 \<and> matchingImages (stats resp) = 0)"
proof -
  have l: "readdir demo_env (imageFolder demo_config) = Inr [''b.png'', ''a.jpg'', ''notes.txt'', ''c.JPG'', ''d.jpeg'']"
    by (simp add: demo_config_fields demo_readdir)
  have e: "readdir empty_env (imageFolder demo_config) = Inr []"
    by (simp add: empty_env_def)
  from search_stats_counts[OF l, of demo_searcher] demo_run
  have "totalImages (stats demo_response) =
          length (filter (is_supported_image_file demo_env (imageFolder demo_config))
            [''b.png'', ''a.jpg'', ''notes.txt'', ''c.JPG'', ''d.jpeg''])"
    and m: "matchingImages (stats demo_response) = length (results demo_response)"
    by blast+
  then have t: "totalImages (stats demo_response) = 4"
    by (simp only: demo_config_fields demo_supported_count)
  from search_stats_counts[OF e, of demo_searcher] demo_ensure
  have "\<exists>resp. fst (search empty_env demo_config demo_searcher) = Inr resp \<and> results resp = [] \<and>
      totalImages (stats resp) = 0 \<and> matchingImages (stats resp) = 0"
    by blast
  with l e t m demo_run demo_ensure show ?thesis by blast
qed

text \<open>
  C10. On a searcher for which no call of \<open>initialize\<close> has succeeded, \<open>search\<close>,
  \<open>searchMultiple\<close> and \<open>selfCheck\<close> each fail with the error
  \<open>Model not initialized. Call initialize() first.\<close>, return nothing else, and leave
  the searcher as it was.
\<close>

theorem calls_before_initialize_fail:
  assumes "failed_attempts Es new_JinaClipSearch = Some s"
  shows "search E config s = (Inl (Error ''Model not initialized. Call initialize() first.''), s) \<and>
         searchMultiple E folder queries thr s = (Inl (Error ''Model not initialized. Call initialize() first.''), s) \<and>
         selfCheck E folder s = (Inl (Error ''Model not initialized. Call initialize() first.''), s)"
proof -
  have "\<not> isInitialized new_JinaClipSearch" by (simp add: new_JinaClipSearch_def)
  with assms have "\<not> isInitialized s" by (rule failed_attempts_not_initialized)
  then have "ensureInitialized s = Inl (Error ''Model not initialized. Call initialize() first.'')"
    by (rule ensureInitialized_fails)
  then show ?thesis by (simp add: search_def searchMultiple_def selfCheck_def)
qed

theorem calls_before_initialize_fail_witness:
  "failed_attempts [offline_env, offline_env] new_JinaClipSearch = Some offline_searcher \<and>
   failed_attempts [] new_JinaClipSearch = Some new_JinaClipSearch \<and>
   search demo_env demo_config offline_searcher
     = (Inl (Error ''Model not initialized. Call initialize() first.''), offline_searcher) \<and>
   searchMultiple demo_env ''/photos'' [''mountain'', ''cat''] None offline_searcher
     = (Inl (Error ''Model not initialized. Call initialize() first.''), offline_searcher) \<and>
   selfCheck demo_env ''/photos'' offline_searcher
     = (Inl (Error ''Model not initialized. Call initialize() first.''), offline_searcher) \<and>
   search demo_env demo_config new_JinaClipSearch
     = (Inl (Error ''Model not initialized. Call initialize() first.''), new_JinaClipSearch)"
proof -
  have a: "failed_attempts [offline_env, offline_env] new_JinaClipSearch = Some offline_searcher"
    by (simp add: offline_initialize)
  have b: "failed_attempts [] new_JinaClipSearch = Some new_JinaClipSearch" by simp
  from calls_before_initialize_fail[OF a] calls_before_initialize_fail[OF b] a b
  show ?thesis by blast
qed

text \<open>
  C6. When every table entry of a predicted label is at least as long as the query
  embedding, the semantic score is the maximum, over the predicted labels that have an
  entry in the table, of the dot product of the query embedding and that entry; it is 0
  when no predicted label has an entry, the empty label list included. A label with no
  entry raises nothing and changes nothing: the score is that of the labels that have one.
\<close>

theorem computeSemanticScore_max:
  assumes dims: "\<forall>l \<in> set imageLabels. \<forall>e. labelEmbeddings s l = Some e \<longrightarrow> length queryEmbedding \<le> length e"
  shows "computeSemanticScore s imageLabels queryEmbedding =
           (let found = List.map_filter (labelEmbeddings s) imageLabels in
            if found = [] then Val 0
            else Val (Max (dot_product queryEmbedding ` set found))) \<and>
         computeSemanticScore s imageLabels queryEmbedding =
           computeSemanticScore s (filter (\<lambda>l. labelEmbeddings s l \<noteq> None) imageLabels) queryEmbedding"
proof
  show "computeSemanticScore s imageLabels queryEmbedding =
           (let found = List.map_filter (labelEmbeddings s) imageLabels in
            if found = [] then Val 0
            else Val (Max (dot_product queryEmbedding ` set found)))"
    using computeSemanticScore_found[OF dims] by (simp add: Let_def)
next
  let ?present = "filter (\<lambda>l. labelEmbeddings s l \<noteq> None) imageLabels"
  have dims': "\<forall>l \<in> set ?present. \<forall>e. labelEmbeddings s l = Some e \<longrightarrow> length queryEmbedding \<le> length e"
    using dims by auto
  have same: "List.map_filter (labelEmbeddings s) ?present = List.map_filter (labelEmbeddings s) imageLabels"
    by (induction imageLabels) (auto split: option.splits)
  show "computeSemanticScore s imageLabels queryEmbedding = computeSemanticScore s ?present queryEmbedding"
    unfolding computeSemanticScore_found[OF dims] computeSemanticScore_found[OF dims'] same ..
qed

theorem computeSemanticScore_max_witness:
  "computeSemanticScore demo_scorer [''cat'', ''zebra'', ''dog''] [3/5, 4/5] = Val (4/5) \<and>
   computeSemanticScore demo_scorer [''zebra''] [3/5, 4/5] = Val 0 \<and>
   computeSemanticScore demo_scorer [] [3/5, 4/5] = Val 0"
proof -
  have z: "\<forall>l \<in> set [''zebra'']. \<forall>e. labelEmbeddings demo_scorer l = Some e \<longrightarrow> length [3/5, 4/5 :: real] \<le> length e"
    by (simp add: demo_scorer_def)
  have zf: "List.map_filter (labelEmbeddings demo_scorer) [''zebra''] = []"
    by (simp add: demo_scorer_def)
  have n: "\<forall>l \<in> set []. \<forall>e. labelEmbeddings demo_scorer l = Some e \<longrightarrow> length [3/5, 4/5 :: real] \<le> length e"
    by simp
  have 1: "computeSemanticScore demo_scorer [''cat'', ''zebra'', ''dog''] [3/5, 4/5] = Val (4/5)"
    using computeSemanticScore_max[OF demo_semantic_dims]
    unfolding demo_found by (simp add: demo_dot_products)
  have 2: "computeSemanticScore demo_scorer [''zebra''] [3/5, 4/5] = Val 0"
    using computeSemanticScore_max[OF z] unfolding zf by simp
  have 3: "computeSemanticScore demo_scorer [] [3/5, 4/5] = Val 0"
    using computeSemanticScore_max[OF n] by simp
  from 1 2 3 show ?thesis by blast
qed

text \<open>
  C5. With vectors of matching dimensions, the fused score with \<open>fusionWeight = 0\<close> is the
  visual score, and the fused score with \<open>fusionWeight = 1\<close> is the secondary score. The
  two are equal, hence within any tolerance.
\<close>

theorem fusion_weight_extremes:
  assumes visual: "length imageVector \<le> length queryVector"
    and table: "\<forall>l \<in> set auxLabels. \<forall>e. labelEmbeddings sc l = Some e \<longrightarrow> length queryVector \<le> length e"
  shows "fusedScore (Some sc) True 0 imageVector queryVector auxLabels = dot imageVector queryVector \<and>
         fusedScore (Some sc) True 0 imageVector queryVector auxLabels
           = fusedScore None False 0 imageVector queryVector auxLabels \<and>
         fusedScore (Some sc) True 1 imageVector queryVector auxLabels
           = computeSemanticScore sc auxLabels queryVector"
proof -
  from dot_Val[OF visual] obtain v where v: "dot imageVector queryVector = Val v" by blast
  from computeSemanticScore_is_Val[OF table] obtain x where
    x: "computeSemanticScore sc auxLabels queryVector = Val x" by blast
  show ?thesis by (simp add: fusedScore_def clamp01_def v x)
qed

theorem fusion_weight_extremes_witness:
  "fusedScore (Some demo_scorer) True 0 [1, 0] [3/5, 4/5] [''cat'', ''zebra'', ''dog''] = Val (3/5) \<and>
   fusedScore (Some demo_scorer) True 1 [1, 0] [3/5, 4/5] [''cat'', ''zebra'', ''dog''] = Val (4/5)"
proof -
  have v: "length [1, 0 :: real] \<le> length [3/5, 4/5 :: real]" by simp
  have d: "dot [1, 0] [3/5, 4/5] = Val (3/5)"
    by (simp add: dot_def upt_2 js_index_def)
  have c: "computeSemanticScore demo_scorer [''cat'', ''zebra'', ''dog''] [3/5, 4/5] = Val (4/5)"
    using computeSemanticScore_found[OF demo_semantic_dims]
    unfolding demo_found by (simp add: demo_dot_products)
  from fusion_weight_extremes[OF v demo_semantic_dims] d c show ?thesis by simp
qed




text \<open>
  C7. The folder exists and \<open>readdir\<close> lists one entry, on which \<open>stat\<close> fails with
  \<open>ENOENT\<close>. The \<open>catch\<close> clause of \<open>getImageFiles\<close> covers the \<open>stat\<close> too, and the
  error comes out as a missing directory instead of passing through unchanged.
\<close>

theorem getImageFiles_entry_ENOENT:
  "readdir dangling_env ''/photos'' = Inr [''broken.jpg''] \<and>
   stat dangling_env (join dangling_env ''/photos'' ''broken.jpg'')
     = Inl (SystemError ''ENOENT'' ''no such file or directory, stat'') \<and>
   getImageFiles dangling_env ''/photos'' = Inl (Error ''Directory not found: /photos'')"
  by (simp add: dangling_env_def demo_env_def getImageFiles_def getImageFiles_try_def)






end
